theory Spec2Isabelle
  imports Main "HOL-Library.Word" "HOL-Library.List_Lexorder"
begin

section \<open>The shed index layer: data model\<close>

text \<open>
  A shallow embedding of package \<open>shed\<close>, file \<open>index.go\<close>: the \<open>Item\<close> record with
  \<open>Merge\<close>, the \<open>Index\<close> built by \<open>NewIndex\<close>, its operations and \<open>incByteSlice\<close>.
  A Go byte slice that the code compares with \<open>nil\<close> is a \<open>bytes option\<close> (\<open>None\<close> is
  the nil slice, \<open>Some []\<close> the empty non-nil one); keys and values, which the code only
  appends, compares and stores, are plain byte lists ordered lexicographically on
  unsigned bytes.
\<close>

type_synonym byte = "8 word"
type_synonym bytes = "byte list"

record Item =
  Address :: "bytes option"
  Data :: "bytes option"
  AccessTimestamp :: "64 word"
  StoreTimestamp :: "64 word"
  BinID :: "64 word"
  PinCounter :: "64 word"
  Tag :: "32 word"

text \<open>\<open>Item.Merge\<close>: the receiver is a copy; each zero field is overwritten in turn.\<close>

definition Merge :: "Item \<Rightarrow> Item \<Rightarrow> Item" where
  "Merge i i2 =
    (let i = (if Address i = None then i\<lparr>Address := Address i2\<rparr> else i);
         i = (if Data i = None then i\<lparr>Data := Data i2\<rparr> else i);
         i = (if AccessTimestamp i = 0 then i\<lparr>AccessTimestamp := AccessTimestamp i2\<rparr> else i);
         i = (if StoreTimestamp i = 0 then i\<lparr>StoreTimestamp := StoreTimestamp i2\<rparr> else i);
         i = (if BinID i = 0 then i\<lparr>BinID := BinID i2\<rparr> else i);
         i = (if PinCounter i = 0 then i\<lparr>PinCounter := PinCounter i2\<rparr> else i);
         i = (if Tag i = 0 then i\<lparr>Tag := Tag i2\<rparr> else i)
     in i)"

text \<open>
  Go error values: \<open>shed.ErrNotFound\<close>, \<open>badger.ErrKeyNotFound\<close>, and any other error
  (what a codec returns). A function that can end in a runtime panic returns an
  \<open>option\<close> around its result, \<open>None\<close> being the panic.
\<close>

datatype error = ErrNotFound | ErrKeyNotFound | ErrOther string

record IndexFuncs =
  EncodeKey :: "Item \<Rightarrow> error + bytes"
  DecodeKey :: "bytes \<Rightarrow> error + Item"
  EncodeValue :: "Item \<Rightarrow> error + bytes"
  DecodeValue :: "Item \<Rightarrow> bytes \<Rightarrow> error + Item"

text \<open>
  The \<open>Index\<close> struct. Its \<open>db\<close> field is the database the operations below take as an
  argument; the logger has no effect on any result and is left out.
\<close>

record Index =
  prefix :: bytes
  encodeKeyFunc :: "Item \<Rightarrow> error + bytes"
  decodeKeyFunc :: "bytes \<Rightarrow> (error + Item) option"
  encodeValueFunc :: "Item \<Rightarrow> error + bytes"
  decodeValueFunc :: "Item \<Rightarrow> bytes \<Rightarrow> error + Item"

text \<open>
  \<open>DB.NewIndex\<close>. The schema lookup \<open>db.schemaIndexPrefix\<close> is not part of the file and
  is a parameter. \<open>key[1:]\<close> panics on an empty key (slice bounds out of range).
\<close>

definition NewIndex :: "(string \<Rightarrow> error + byte) \<Rightarrow> string \<Rightarrow> IndexFuncs \<Rightarrow> error + Index" where
  "NewIndex schemaIndexPrefix name funcs =
    (case schemaIndexPrefix name of
       Inl err \<Rightarrow> Inl err
     | Inr id' \<Rightarrow>
         (let prefix' = [id'] in
          Inr \<lparr> prefix = prefix',
                encodeKeyFunc = (\<lambda>e. case EncodeKey funcs e of
                                        Inl err \<Rightarrow> Inl err
                                      | Inr key \<Rightarrow> Inr (prefix' @ key)),
                decodeKeyFunc = (\<lambda>key. if length key < 1 then None
                                        else Some (DecodeKey funcs (drop 1 key))),
                encodeValueFunc = EncodeValue funcs,
                decodeValueFunc = DecodeValue funcs \<rparr>))"

section \<open>The ordered key/value store\<close>

text \<open>
  The contents of the engine (and of a read snapshot of it): the stored pairs in
  ascending key order, one pair per key.
\<close>

type_synonym DB = "(bytes \<times> bytes) list"

definition DB_sorted :: "DB \<Rightarrow> bool" where
  "DB_sorted db = sorted_wrt (<) (map fst db)"

text \<open>\<open>bytes.HasPrefix\<close> of the Go standard library.\<close>

definition HasPrefix :: "bytes \<Rightarrow> bytes \<Rightarrow> bool" where
  "HasPrefix s p = (length p \<le> length s \<and> take (length p) s = p)"

text \<open>
  Modelled from the spec: the database facade \<open>db.Get\<close>, \<open>db.Has\<close>, \<open>db.Put\<close>,
  \<open>db.Delete\<close>, \<open>db.Iterate\<close>, \<open>db.First\<close>, \<open>db.Last\<close>, \<open>db.CountPrefix\<close> and
  \<open>db.CountFrom\<close> (file \<open>db.go\<close> is missing), after section 4.2: point operations on an
  ordered store, \<open>NotFound\<close> for an absent key, an ascending walk from a start key
  that ends on \<open>stop\<close> or on an error, smallest and largest key with a prefix,
  exhaustive counts. Engine I/O failures are outside the model.
\<close>

definition DB_Get :: "DB \<Rightarrow> bytes \<Rightarrow> error + bytes" where
  "DB_Get db key = (case map_of db key of None \<Rightarrow> Inl ErrNotFound | Some v \<Rightarrow> Inr v)"

definition DB_Has :: "DB \<Rightarrow> bytes \<Rightarrow> error + bool" where
  "DB_Has db key = Inr (map_of db key \<noteq> None)"

fun store_put :: "bytes \<Rightarrow> bytes \<Rightarrow> DB \<Rightarrow> DB" where
  "store_put key v [] = [(key, v)]"
| "store_put key v ((k, w) # rest) =
     (if key = k then (key, v) # rest
      else if key < k then (key, v) # (k, w) # rest
      else (k, w) # store_put key v rest)"

definition DB_Put :: "DB \<Rightarrow> bytes \<Rightarrow> bytes \<Rightarrow> error + DB" where
  "DB_Put db key v = Inr (store_put key v db)"

definition DB_Delete :: "DB \<Rightarrow> bytes \<Rightarrow> error + DB" where
  "DB_Delete db key = Inr (filter (\<lambda>(k, w). k \<noteq> key) db)"

definition DB_scan :: "DB \<Rightarrow> bytes \<Rightarrow> bool \<Rightarrow> (bytes \<times> bytes) list" where
  "DB_scan db startKey skipStartKey =
     filter (\<lambda>(k, w). startKey \<le> k \<and> \<not> (skipStartKey \<and> k = startKey)) db"

fun iterate_loop ::
  "(bytes \<Rightarrow> bytes \<Rightarrow> 's \<Rightarrow> ((bool \<times> error option) \<times> 's) option) \<Rightarrow>
   (bytes \<times> bytes) list \<Rightarrow> 's \<Rightarrow> (error option \<times> 's) option" where
  "iterate_loop fn [] s = Some (None, s)"
| "iterate_loop fn ((k, v) # rest) s =
     (case fn k v s of
        None \<Rightarrow> None
      | Some ((stop, err), s') \<Rightarrow>
          (case err of
             Some e \<Rightarrow> Some (Some e, s')
           | None \<Rightarrow> if stop then Some (None, s') else iterate_loop fn rest s'))"

definition DB_Iterate ::
  "DB \<Rightarrow> bytes \<Rightarrow> bool \<Rightarrow> (bytes \<Rightarrow> bytes \<Rightarrow> 's \<Rightarrow> ((bool \<times> error option) \<times> 's) option) \<Rightarrow>
   's \<Rightarrow> (error option \<times> 's) option" where
  "DB_Iterate db startKey skipStartKey fn s = iterate_loop fn (DB_scan db startKey skipStartKey) s"

definition DB_First :: "DB \<Rightarrow> bytes \<Rightarrow> error + (bytes \<times> bytes)" where
  "DB_First db p =
     (case filter (\<lambda>(k, w). HasPrefix k p) db of
        [] \<Rightarrow> Inl ErrNotFound
      | kv # rest \<Rightarrow> Inr kv)"

definition DB_Last :: "DB \<Rightarrow> bytes \<Rightarrow> error + (bytes \<times> bytes)" where
  "DB_Last db p =
     (case rev (filter (\<lambda>(k, w). HasPrefix k p) db) of
        [] \<Rightarrow> Inl ErrNotFound
      | kv # rest \<Rightarrow> Inr kv)"

definition DB_CountPrefix :: "DB \<Rightarrow> bytes \<Rightarrow> error + nat" where
  "DB_CountPrefix db p = Inr (length (filter (\<lambda>(k, w). HasPrefix k p) db))"

definition DB_CountFrom :: "DB \<Rightarrow> bytes \<Rightarrow> error + nat" where
  "DB_CountFrom db startKey = Inr (length (DB_scan db startKey False))"

text \<open>
  The engine's own read primitives that \<open>Fill\<close> and \<open>HasMulti\<close> call on a read
  transaction: \<open>txn.Get\<close> (\<open>badger.ErrKeyNotFound\<close> on an absent key), and a forward
  iterator, whose position is the list of pairs from the current one on: \<open>Seek\<close> moves
  to the smallest stored key not below the given one, \<open>Valid\<close> tells whether there is
  a current pair, \<open>Item().Key()\<close> is its key.
\<close>

definition txn_Get :: "DB \<Rightarrow> bytes \<Rightarrow> error + bytes" where
  "txn_Get txn key = (case map_of txn key of None \<Rightarrow> Inl ErrKeyNotFound | Some v \<Rightarrow> Inr v)"

definition it_Seek :: "DB \<Rightarrow> bytes \<Rightarrow> (bytes \<times> bytes) list" where
  "it_Seek txn key = dropWhile (\<lambda>(k, w). k < key) txn"

definition it_Valid :: "(bytes \<times> bytes) list \<Rightarrow> bool" where
  "it_Valid it = (it \<noteq> [])"

definition it_Item_Key :: "(bytes \<times> bytes) list \<Rightarrow> bytes" where
  "it_Item_Key it = fst (hd it)"

section \<open>Index operations\<close>

definition Get :: "Index \<Rightarrow> Item \<Rightarrow> DB \<Rightarrow> error + Item" where
  "Get f keyFields db =
    (case encodeKeyFunc f keyFields of
       Inl err \<Rightarrow> Inl err
     | Inr key \<Rightarrow>
         (case DB_Get db key of
            Inl err \<Rightarrow> Inl err
          | Inr v \<Rightarrow>
              (case decodeValueFunc f keyFields v of
                 Inl err \<Rightarrow> Inl err
               | Inr out \<Rightarrow> Inr (Merge out keyFields))))"

text \<open>
  \<open>Fill\<close> walks the slice by index and overwrites entries in place; the slice as it
  stands is returned together with the error (\<open>None\<close> is nil).
\<close>

fun Fill_loop :: "Index \<Rightarrow> DB \<Rightarrow> nat list \<Rightarrow> Item list \<Rightarrow> Item list \<times> error option" where
  "Fill_loop f txn [] items = (items, None)"
| "Fill_loop f txn (i # is) items =
    (let item = items ! i in
     case encodeKeyFunc f item of
       Inl err \<Rightarrow> (items, Some err)
     | Inr key \<Rightarrow>
         (case txn_Get txn key of
            Inl err \<Rightarrow>
              (if err = ErrKeyNotFound then (items, Some ErrNotFound) else (items, Some err))
          | Inr val \<Rightarrow>
              (case decodeValueFunc f item val of
                 Inl err \<Rightarrow> (items, Some err)
               | Inr decodedItem \<Rightarrow> Fill_loop f txn is (items[i := Merge decodedItem item]))))"

definition Fill :: "Index \<Rightarrow> Item list \<Rightarrow> DB \<Rightarrow> Item list \<times> error option" where
  "Fill f items db = Fill_loop f db [0..<length items] items"

definition Has :: "Index \<Rightarrow> Item \<Rightarrow> DB \<Rightarrow> error + bool" where
  "Has f keyFields db =
    (case encodeKeyFunc f keyFields of
       Inl err \<Rightarrow> Inl err
     | Inr key \<Rightarrow> DB_Has db key)"

text \<open>
  The body of the loop of \<open>HasMulti\<close> once the key is encoded: seek, and set
  \<open>have[i]\<close>; when the iterator is valid on another key, \<open>have[i]\<close> keeps its value.
\<close>

definition HasMulti_body :: "DB \<Rightarrow> bytes \<Rightarrow> nat \<Rightarrow> bool list \<Rightarrow> bool list" where
  "HasMulti_body txn key i have =
    (let it = it_Seek txn key in
     if \<not> it_Valid it then have[i := False]
     else if key = it_Item_Key it then have[i := True]
     else have)"

fun HasMulti_loop ::
  "Index \<Rightarrow> DB \<Rightarrow> nat list \<Rightarrow> Item list \<Rightarrow> bool list \<Rightarrow> error + bool list" where
  "HasMulti_loop f txn [] items have = Inr have"
| "HasMulti_loop f txn (i # is) items have =
    (case encodeKeyFunc f (items ! i) of
       Inl err \<Rightarrow> Inl err
     | Inr key \<Rightarrow> HasMulti_loop f txn is items (HasMulti_body txn key i have))"

definition HasMulti :: "Index \<Rightarrow> Item list \<Rightarrow> DB \<Rightarrow> error + bool list" where
  "HasMulti f items db =
     HasMulti_loop f db [0..<length items] items (replicate (length items) False)"

definition Put :: "Index \<Rightarrow> Item \<Rightarrow> DB \<Rightarrow> error + DB" where
  "Put f i db =
    (case encodeKeyFunc f i of
       Inl err \<Rightarrow> Inl err
     | Inr key \<Rightarrow>
         (case encodeValueFunc f i of
            Inl err \<Rightarrow> Inl err
          | Inr v \<Rightarrow> DB_Put db key v))"

definition Delete :: "Index \<Rightarrow> Item \<Rightarrow> DB \<Rightarrow> error + DB" where
  "Delete f keyFields db =
    (case encodeKeyFunc f keyFields of
       Inl err \<Rightarrow> Inl err
     | Inr key \<Rightarrow> DB_Delete db key)"

text \<open>
  \<open>itemFromKeyValue\<close>: the prefix check, then both decoders on copies of the slices,
  then \<open>keyItem.Merge(valueItem)\<close>.
\<close>

definition itemFromKeyValue :: "Index \<Rightarrow> bytes \<Rightarrow> bytes \<Rightarrow> bytes \<Rightarrow> (error + Item) option" where
  "itemFromKeyValue f key v totalPrefix =
    (if \<not> HasPrefix key totalPrefix then Some (Inl ErrKeyNotFound)
     else (case decodeKeyFunc f key of
             None \<Rightarrow> None
           | Some (Inl err) \<Rightarrow> Some (Inl err)
           | Some (Inr keyItem) \<Rightarrow>
               (case decodeValueFunc f keyItem v of
                  Inl err \<Rightarrow> Some (Inl err)
                | Inr valueItem \<Rightarrow> Some (Inr (Merge keyItem valueItem)))))"

record IterateOptions =
  StartFrom :: "Item option"
  SkipStartFromItem :: bool
  Prefix :: bytes

text \<open>
  The function literal that \<open>Iterate\<close> hands to \<open>db.Iterate\<close>. The user callback
  \<open>fn\<close> may change variables it captures: they are the state \<open>'s\<close>.
\<close>

definition Iterate_callback ::
  "Index \<Rightarrow> (Item \<Rightarrow> 's \<Rightarrow> (bool \<times> error option) \<times> 's) \<Rightarrow> bytes \<Rightarrow>
   bytes \<Rightarrow> bytes \<Rightarrow> 's \<Rightarrow> ((bool \<times> error option) \<times> 's) option" where
  "Iterate_callback f fn prefix' key v s =
    (case itemFromKeyValue f key v prefix' of
       None \<Rightarrow> None
     | Some (Inl err) \<Rightarrow>
         (if err = ErrKeyNotFound then Some ((True, None), s) else Some ((False, Some err), s))
     | Some (Inr item) \<Rightarrow> Some (fn item s))"

definition Iterate ::
  "Index \<Rightarrow> (Item \<Rightarrow> 's \<Rightarrow> (bool \<times> error option) \<times> 's) \<Rightarrow> IterateOptions option \<Rightarrow>
   DB \<Rightarrow> 's \<Rightarrow> (error option \<times> 's) option" where
  "Iterate f fn options db s =
    (let options' = (case options of
                       None \<Rightarrow> \<lparr> StartFrom = None, SkipStartFromItem = False, Prefix = [] \<rparr>
                     | Some opts \<Rightarrow> opts);
         prefix' = prefix f @ Prefix options'
     in case (case StartFrom options' of
                None \<Rightarrow> Inr prefix'
              | Some start \<Rightarrow> encodeKeyFunc f start) of
          Inl err \<Rightarrow> Some (Some err, s)
        | Inr startKey \<Rightarrow>
            DB_Iterate db startKey (SkipStartFromItem options')
              (Iterate_callback f fn prefix') s)"

definition First :: "Index \<Rightarrow> bytes \<Rightarrow> DB \<Rightarrow> (error + Item) option" where
  "First f p db =
    (let totalPrefix = prefix f @ p in
     case DB_First db totalPrefix of
       Inl err \<Rightarrow> Some (Inl err)
     | Inr (k, v) \<Rightarrow> itemFromKeyValue f k v totalPrefix)"

definition Last :: "Index \<Rightarrow> bytes \<Rightarrow> DB \<Rightarrow> (error + Item) option" where
  "Last f p db =
    (let totalPrefix = prefix f @ p in
     case DB_Last db totalPrefix of
       Inl err \<Rightarrow> Some (Inl err)
     | Inr (k, v) \<Rightarrow> itemFromKeyValue f k v totalPrefix)"

text \<open>
  \<open>incByteSlice\<close>: \<open>next\<close> starts as a copy of \<open>b\<close>; the loop runs \<open>i\<close> from
  \<open>len(b) - 1\<close> down to \<open>0\<close> (the counter below is \<open>i + 1\<close>); \<open>None\<close> is the nil result.
\<close>

fun incLoop :: "bytes \<Rightarrow> bytes \<Rightarrow> nat \<Rightarrow> bytes option" where
  "incLoop b next 0 = None"
| "incLoop b next (Suc i) =
     (if b ! i = 255 then incLoop b (next[i := 0]) i
      else Some (next[i := b ! i + 1]))"

definition incByteSlice :: "bytes \<Rightarrow> bytes option" where
  "incByteSlice b = incLoop b b (length b)"

definition Count :: "Index \<Rightarrow> DB \<Rightarrow> error + nat" where
  "Count f db = DB_CountPrefix db (prefix f)"

definition CountFrom :: "Index \<Rightarrow> Item \<Rightarrow> DB \<Rightarrow> error + nat" where
  "CountFrom f start db =
    (case encodeKeyFunc f start of
       Inl err \<Rightarrow> Inl err
     | Inr startKey \<Rightarrow> DB_CountFrom db startKey)"

section \<open>Merge\<close>

lemma Merge_fields:
  "Merge a b =
     \<lparr> Address = (if Address a = None then Address b else Address a),
       Data = (if Data a = None then Data b else Data a),
       AccessTimestamp = (if AccessTimestamp a = 0 then AccessTimestamp b else AccessTimestamp a),
       StoreTimestamp = (if StoreTimestamp a = 0 then StoreTimestamp b else StoreTimestamp a),
       BinID = (if BinID a = 0 then BinID b else BinID a),
       PinCounter = (if PinCounter a = 0 then PinCounter b else PinCounter a),
       Tag = (if Tag a = 0 then Tag b else Tag a) \<rparr>"
  by (simp add: Merge_def Let_def)

text \<open>
  Claim C3. For all Items \<open>a\<close> and \<open>b\<close>, every field of \<open>a.Merge(b)\<close> is the field of
  \<open>a\<close> when that field of \<open>a\<close> is non-zero (non-nil for the two byte slices) and the
  field of \<open>b\<close> otherwise; so a non-zero field of \<open>a\<close> is kept as it is.
\<close>

theorem Merge_takes_left_unless_zero:
  "Address (Merge a b) = (if Address a \<noteq> None then Address a else Address b) \<and>
   Data (Merge a b) = (if Data a \<noteq> None then Data a else Data b) \<and>
   AccessTimestamp (Merge a b) =
     (if AccessTimestamp a \<noteq> 0 then AccessTimestamp a else AccessTimestamp b) \<and>
   StoreTimestamp (Merge a b) =
     (if StoreTimestamp a \<noteq> 0 then StoreTimestamp a else StoreTimestamp b) \<and>
   BinID (Merge a b) = (if BinID a \<noteq> 0 then BinID a else BinID b) \<and>
   PinCounter (Merge a b) = (if PinCounter a \<noteq> 0 then PinCounter a else PinCounter b) \<and>
   Tag (Merge a b) = (if Tag a \<noteq> 0 then Tag a else Tag b)"
  by (simp add: Merge_fields)

section \<open>The byte-slice successor\<close>

lemma incLoop_None: "incLoop b next n = None \<longleftrightarrow> (\<forall>j<n. b ! j = 255)"
  by (induction n arbitrary: "next") (auto simp: less_Suc_eq)

lemma incLoop_Some:
  "incLoop b next n = Some r \<Longrightarrow> n \<le> length next \<Longrightarrow>
   \<exists>i<n. b ! i \<noteq> 255 \<and> (\<forall>j. i < j \<and> j < n \<longrightarrow> b ! j = 255) \<and>
     r = take i next @ (b ! i + 1) # replicate (n - Suc i) 0 @ drop n next"
proof (induction n arbitrary: "next")
  case 0
  then show ?case by simp
next
  case (Suc n)
  show ?case
  proof (cases "b ! n = 255")
    case True
    with Suc.prems have "incLoop b (next[n := 0]) n = Some r" by simp
    from Suc.IH[OF this] Suc.prems(2)
    obtain i where i: "i < n" "b ! i \<noteq> 255" "\<forall>j. i < j \<and> j < n \<longrightarrow> b ! j = 255"
      "r = take i (next[n := 0]) @ (b ! i + 1) # replicate (n - Suc i) 0 @ drop n (next[n := 0])"
      by auto
    have d: "drop n (next[n := 0]) = 0 # drop (Suc n) next"
      using Suc.prems(2)
      by (simp add: Cons_nth_drop_Suc[symmetric] upd_conv_take_nth_drop drop_Suc)
    have r: "replicate (n - Suc i) (0::byte) @ [0] = replicate (Suc n - Suc i) 0"
      using i(1) by (metis Suc_diff_le Suc_leI replicate_Suc replicate_append_same)
    have "r = take i next @ (b ! i + 1) # replicate (Suc n - Suc i) 0 @ drop (Suc n) next"
      using i(1,4) d r by (simp del: replicate_Suc)
    with i True show ?thesis
      by (intro exI[of _ i]) (auto simp: less_Suc_eq)
  next
    case False
    with Suc.prems have "r = next[n := b ! n + 1]" by simp
    with Suc.prems(2) False show ?thesis
      by (intro exI[of _ n]) (auto simp: upd_conv_take_nth_drop)
  qed
qed

lemma byte_255: "(255::byte) = - 1"
  by simp

lemma byte_succ: "(x::byte) \<noteq> 255 \<Longrightarrow> x < x + 1"
proof -
  assume "x \<noteq> 255"
  then have "x \<noteq> - 1" unfolding byte_255 .
  then have "\<not> x + 1 \<le> x" by (simp add: inc_less_eq_self_iff_eq)
  then show ?thesis by simp
qed

lemma replicate_255_max: "length cs = k \<Longrightarrow> \<not> replicate k (255::byte) < cs"
proof (induction k arbitrary: cs)
  case 0
  then show ?case by simp
next
  case (Suc k)
  then obtain c cs' where c: "cs = c # cs'" "length cs' = k" by (cases cs) auto
  have "\<not> (255::byte) < c" by (simp only: byte_255 not_less max_word_max)
  with Suc.IH[OF c(2)] c(1) show ?case by auto
qed

lemma replicate_0_min: "length cs = k \<Longrightarrow> replicate k (0::byte) \<le> cs"
proof (induction k arbitrary: cs)
  case 0
  then show ?case by simp
next
  case (Suc k)
  then obtain c cs' where c: "cs = c # cs'" "length cs' = k" by (cases cs) auto
  have "c = 0 \<or> 0 < c" using word_neq_0_conv by blast
  with Suc.IH[OF c(2)] c(1) show ?case by auto
qed

lemma succ_greater:
  "(x::byte) \<noteq> 255 \<Longrightarrow> p @ x # replicate k 255 < p @ (x + 1) # replicate k 0"
  by (induction p) (simp_all add: byte_succ)

lemma succ_least:
  "(x::byte) \<noteq> 255 \<Longrightarrow> length c = length p + Suc k \<Longrightarrow> p @ x # replicate k 255 < c \<Longrightarrow>
   p @ (x + 1) # replicate k 0 \<le> c"
proof (induction p arbitrary: c)
  case Nil
  then obtain y cs where c: "c = y # cs" "length cs = k" by (cases c) auto
  from Nil(3) c replicate_255_max[OF c(2)] have "x < y" by auto
  then have "x + 1 \<le> y" by (rule inc_le)
  then have "x + 1 < y \<or> x + 1 = y" by auto
  with c replicate_0_min[OF c(2)] show ?case by auto
next
  case (Cons a p)
  then obtain y cs where c: "c = y # cs" "length cs = length p + Suc k" by (cases c) auto
  from Cons.prems(3) c have "a < y \<or> (a = y \<and> p @ x # replicate k 255 < cs)" by simp
  then show ?case
  proof
    assume "a < y"
    with c show ?thesis by simp
  next
    assume h: "a = y \<and> p @ x # replicate k 255 < cs"
    with Cons.IH[OF Cons.prems(1) c(2)] have "p @ (x + 1) # replicate k 0 \<le> cs" by simp
    with h c show ?thesis by simp
  qed
qed

lemma all_255_decomp:
  "i < length b \<Longrightarrow> \<forall>j. i < j \<and> j < length b \<longrightarrow> b ! j = (255::byte) \<Longrightarrow>
   b = take i b @ b ! i # replicate (length b - Suc i) 255"
  by (rule nth_equalityI) (auto simp: nth_append nth_Cons' min_def)

text \<open>
  Claim C5. \<open>incByteSlice b\<close> is nil exactly when every byte of \<open>b\<close> is \<open>0xFF\<close>. When
  \<open>b\<close> has a byte other than \<open>0xFF\<close>, the result is a slice of the length of \<open>b\<close>,
  strictly greater than \<open>b\<close> in the lexicographic order on bytes, and below or equal
  to every slice of that length that is strictly greater than \<open>b\<close>. In particular
  \<open>incByteSlice(01 FF) = 02 00\<close>, \<open>incByteSlice(FF FF) = nil\<close> and
  \<open>incByteSlice(00) = 01\<close>.
\<close>

theorem incByteSlice_successor:
  "(incByteSlice b = None \<longleftrightarrow> (\<forall>x\<in>set b. x = 255)) \<and>
   ((\<exists>x\<in>set b. x \<noteq> 255) \<longrightarrow>
      (\<exists>r. incByteSlice b = Some r \<and> length r = length b \<and> b < r \<and>
           (\<forall>c. length c = length b \<and> b < c \<longrightarrow> r \<le> c))) \<and>
   incByteSlice [1, 255] = Some [2, 0] \<and>
   incByteSlice [255, 255] = None \<and>
   incByteSlice [0] = Some [1]"
proof (intro conjI impI)
  show n: "incByteSlice b = None \<longleftrightarrow> (\<forall>x\<in>set b. x = 255)"
    by (simp add: incByteSlice_def incLoop_None all_set_conv_all_nth)
  show "incByteSlice [1, 255] = Some [2, 0]" by (simp add: incByteSlice_def)
  show "incByteSlice [255, 255] = None" by (simp add: incByteSlice_def)
  show "incByteSlice [0] = Some [1]" by (simp add: incByteSlice_def)
  assume "\<exists>x\<in>set b. x \<noteq> 255"
  with n obtain r where r: "incByteSlice b = Some r" by auto
  then have "incLoop b b (length b) = Some r" by (simp add: incByteSlice_def)
  from incLoop_Some[OF this] obtain i where i: "i < length b" "b ! i \<noteq> 255"
    "\<forall>j. i < j \<and> j < length b \<longrightarrow> b ! j = 255"
    "r = take i b @ (b ! i + 1) # replicate (length b - Suc i) 0" by auto
  note d = all_255_decomp[OF i(1,3)]
  have len: "length r = length b" using i(1,4) by simp
  have gt: "b < r"
    using succ_greater[OF i(2), of "take i b" "length b - Suc i"] d i(4) by simp
  have least: "r \<le> c" if "length c = length b \<and> b < c" for c
  proof -
    have l: "length c = length (take i b) + Suc (length b - Suc i)" using that i(1) by simp
    have "take i b @ b ! i # replicate (length b - Suc i) 255 < c" using that d by simp
    from succ_least[OF i(2) l this] show ?thesis using i(4) by simp
  qed
  from r len gt least
  show "\<exists>r. incByteSlice b = Some r \<and> length r = length b \<and> b < r \<and>
           (\<forall>c. length c = length b \<and> b < c \<longrightarrow> r \<le> c)" by blast
qed

theorem incByteSlice_successor_witness:
  "(\<exists>x\<in>set [1, 255::byte]. x \<noteq> 255) \<and> incByteSlice [1, 255] = Some [2, 0] \<and>
   length [2, 0::byte] = length [1, 255::byte] \<and> [1, 255::byte] < [2, 0] \<and>
   [2, 0] \<le> [2, 7::byte]"
proof -
  have h: "\<exists>x\<in>set [1, 255::byte]. x \<noteq> 255" by simp
  from incByteSlice_successor[of "[1, 255]"] h
  obtain r where r: "incByteSlice [1, 255] = Some r" "length r = length [1, 255::byte]"
    "[1, 255] < r" "\<forall>c. length c = length [1, 255::byte] \<and> [1, 255::byte] < c \<longrightarrow> r \<le> c"
    by blast
  from incByteSlice_successor[of "[1, 255]"] have e: "incByteSlice [1, 255] = Some [2, 0]"
    by blast
  with r(1) have "r = [2, 0]" by simp
  moreover have "length [2, 7::byte] = length [1, 255::byte] \<and> [1, 255::byte] < [2, 7]"
    by simp
  ultimately have "[2, 0] \<le> [2, 7::byte]" using r(4) by blast
  with h e show ?thesis by simp
qed

end
